theory Spec2Isabelle
  imports Main
begin

section \<open>Python exceptions\<close>

text \<open>
  Every exception class the sources raise or catch is a constructor. Subclasses are
  folded into the class the \<^verbatim>\<open>except\<close> clauses name (\<^verbatim>\<open>ModuleNotFoundError\<close> is an
  \<^verbatim>\<open>ImportError\<close>). \<open>OtherException\<close> stands for any class that none of the
  \<^verbatim>\<open>except\<close> clauses of the sources names. The messages of \<^verbatim>\<open>ImportError\<close> and
  \<^verbatim>\<open>AttributeError\<close> are kept, since the compatibility layer builds them.
\<close>

datatype py_exc =
    ImportError string
  | AttributeError string
  | ValueError
  | KeyError string
  | TypeError
  | IndexError
  | OtherException string

section \<open>lfx/settings.py\<close>

text \<open>
  \<^verbatim>\<open>DEV = os.getenv("AIEXEC_DEV", "false").lower() == "true"\<close>

  The environment is a map from variable names to values. \<^verbatim>\<open>str.lower\<close> is modelled on
  the ASCII letters; no character outside \<open>A..Z\<close> lowercases to one of the letters of
  \<open>true\<close>, so the comparison is not affected by the other characters.
\<close>

definition getenv :: "(string \<rightharpoonup> string) \<Rightarrow> string \<Rightarrow> string \<Rightarrow> string" where
  "getenv env key dflt = (case env key of None \<Rightarrow> dflt | Some v \<Rightarrow> v)"

definition lower_char :: "char \<Rightarrow> char" where
  "lower_char c =
     (let n = (of_char c :: nat) in if 65 \<le> n \<and> n \<le> 90 then char_of (n + 32) else c)"

definition lower :: "string \<Rightarrow> string" where
  "lower s = map lower_char s"

definition DEV :: "(string \<rightharpoonup> string) \<Rightarrow> bool" where
  "DEV env = (lower (getenv env ''AIEXEC_DEV'' ''false'') = ''true'')"

section \<open>tests/integration/utils.py: JSONFlowHelper\<close>

text \<open>
  The flow is the value \<^verbatim>\<open>json.load\<close> returned: a JSON tree. Subscripting with a string
  key raises \<^verbatim>\<open>KeyError\<close> on a dict without the key and \<^verbatim>\<open>TypeError\<close> on anything that
  is not a dict; iterating raises \<^verbatim>\<open>TypeError\<close> on a value that is not iterable.
  Numbers are integers here: the helper never computes with them.
\<close>

datatype json =
    JNull
  | JBool bool
  | JInt int
  | JStr string
  | JList "json list"
  | JDict "(string \<times> json) list"

fun subscript :: "json \<Rightarrow> string \<Rightarrow> py_exc + json" where
  "subscript (JDict kvs) k = (case map_of kvs k of None \<Rightarrow> Inl (KeyError k) | Some v \<Rightarrow> Inr v)"
| "subscript _ k = Inl TypeError"

fun iterate :: "json \<Rightarrow> py_exc + json list" where
  "iterate (JList xs) = Inr xs"
| "iterate (JDict kvs) = Inr (map (\<lambda>kv. JStr (fst kv)) kvs)"
| "iterate (JStr s) = Inr (map (\<lambda>c. JStr [c]) s)"
| "iterate _ = Inl TypeError"

text \<open>\<^verbatim>\<open>self.json["data"]["nodes"]\<close>, as the sequence the \<^verbatim>\<open>for\<close> clauses walk.\<close>

definition flow_nodes :: "json \<Rightarrow> py_exc + json list" where
  "flow_nodes flow =
     (case subscript flow ''data'' of
        Inl e \<Rightarrow> Inl e
      | Inr d \<Rightarrow> (case subscript d ''nodes'' of Inl e \<Rightarrow> Inl e | Inr ns \<Rightarrow> iterate ns))"

text \<open>\<^verbatim>\<open>node["data"]["type"]\<close>\<close>

definition node_type :: "json \<Rightarrow> py_exc + json" where
  "node_type node =
     (case subscript node ''data'' of Inl e \<Rightarrow> Inl e | Inr d \<Rightarrow> subscript d ''type'')"

text \<open>
  The list comprehension of \<^verbatim>\<open>get_components_by_type\<close>: nodes are visited in order and
  the first failing subscript ends the comprehension with its exception.
\<close>

fun select_by_type :: "string \<Rightarrow> json list \<Rightarrow> py_exc + json list" where
  "select_by_type t [] = Inr []"
| "select_by_type t (n # ns) =
     (case node_type n of
        Inl e \<Rightarrow> Inl e
      | Inr ty \<Rightarrow>
          (case select_by_type t ns of
             Inl e \<Rightarrow> Inl e
           | Inr r \<Rightarrow> Inr (if ty = JStr t then n # r else r)))"

definition get_components_by_type :: "json \<Rightarrow> string \<Rightarrow> py_exc + json list" where
  "get_components_by_type flow t =
     (case flow_nodes flow of Inl e \<Rightarrow> Inl e | Inr ns \<Rightarrow> select_by_type t ns)"

text \<open>
  \<^verbatim>\<open>get_single_component\<close>: more than one match raises \<^verbatim>\<open>ValueError\<close>; otherwise
  \<^verbatim>\<open>components[0]\<close> is returned, which raises \<^verbatim>\<open>IndexError\<close> on the empty list.
\<close>

definition get_single_component :: "json \<Rightarrow> string \<Rightarrow> py_exc + json" where
  "get_single_component flow t =
     (case get_components_by_type flow t of
        Inl e \<Rightarrow> Inl e
      | Inr components \<Rightarrow>
          if length components > 1 then Inl ValueError
          else (case components of [] \<Rightarrow> Inl IndexError | c # _ \<Rightarrow> Inr c))"

text \<open>
  \<^verbatim>\<open>get_component_by_type\<close>: \<^verbatim>\<open>next\<close> over the generator stops at the first match, so
  later nodes are not inspected. A falsy result (no match, or a match that is an empty
  container) makes the method collect the set of all node types, join them (which needs
  every type to be a hashable string) and raise \<^verbatim>\<open>ValueError\<close>.
\<close>

fun first_by_type :: "string \<Rightarrow> json list \<Rightarrow> py_exc + json option" where
  "first_by_type t [] = Inr None"
| "first_by_type t (n # ns) =
     (case node_type n of
        Inl e \<Rightarrow> Inl e
      | Inr ty \<Rightarrow> if ty = JStr t then Inr (Some n) else first_by_type t ns)"

fun truthy :: "json \<Rightarrow> bool" where
  "truthy JNull = False"
| "truthy (JBool b) = b"
| "truthy (JInt i) = (i \<noteq> 0)"
| "truthy (JStr s) = (s \<noteq> [])"
| "truthy (JList xs) = (xs \<noteq> [])"
| "truthy (JDict kvs) = (kvs \<noteq> [])"

fun hashable :: "json \<Rightarrow> bool" where
  "hashable (JList xs) = False"
| "hashable (JDict kvs) = False"
| "hashable _ = True"

fun is_JStr :: "json \<Rightarrow> bool" where
  "is_JStr (JStr s) = True"
| "is_JStr _ = False"

fun available_types :: "json list \<Rightarrow> py_exc + json list" where
  "available_types [] = Inr []"
| "available_types (n # ns) =
     (case node_type n of
        Inl e \<Rightarrow> Inl e
      | Inr ty \<Rightarrow>
          if \<not> hashable ty then Inl TypeError
          else (case available_types ns of Inl e \<Rightarrow> Inl e | Inr r \<Rightarrow> Inr (ty # r)))"

definition not_found_error :: "json list \<Rightarrow> py_exc" where
  "not_found_error ns =
     (case available_types ns of
        Inl e \<Rightarrow> e
      | Inr tys \<Rightarrow> if list_all is_JStr tys then ValueError else TypeError)"

definition get_component_by_type :: "json \<Rightarrow> string \<Rightarrow> py_exc + json" where
  "get_component_by_type flow t =
     (case flow_nodes flow of
        Inl e \<Rightarrow> Inl e
      | Inr ns \<Rightarrow>
          (case first_by_type t ns of
             Inl e \<Rightarrow> Inl e
           | Inr None \<Rightarrow> Inl (not_found_error ns)
           | Inr (Some r) \<Rightarrow> if truthy r then Inr r else Inl (not_found_error ns)))"

section \<open>aiexec/__init__.py: the compatibility layer\<close>

subsection \<open>Modules, the registry and the host\<close>

text \<open>
  Module objects live in a store and are referred to by reference, so that a canonical
  module mutated after a shadow node has read it is the same object the node holds.
  Two kinds of object occur: ordinary modules (the canonical \<open>lfx\<close> modules, the package
  \<open>aiexec\<close> itself and the modules loaded from a file), which are a namespace, and
  instances of \<^verbatim>\<open>AiexecCompatibilityModule\<close>. The import primitive returns an ordinary
  module: every canonical name of \<^verbatim>\<open>module_mappings\<close> is an \<open>lfx\<close> name and none of them is
  registered as a shadow.
\<close>

datatype mod_ref = Ordinary nat | Shadow nat

datatype pyval = VNone | VInt int | VStr string | VModule mod_ref

type_synonym namespace = "string \<rightharpoonup> pyval"

text \<open>
  An \<^verbatim>\<open>AiexecCompatibilityModule\<close>: \<^verbatim>\<open>__name__\<close>, \<^verbatim>\<open>_lfx_module_name\<close> and
  \<^verbatim>\<open>_lfx_module\<close> (\<open>None\<close> until the first successful import) are fields; every other
  instance attribute is an entry of \<open>module_dict\<close>.
\<close>

record compat_module =
  dunder_name :: string
  lfx_module_name :: string
  lfx_module :: "nat option"
  module_dict :: namespace

text \<open>The calls made to the host's primitives, in order (call-count instrumentation).\<close>

datatype host_call =
    FindSpec string
  | ImportModule string
  | PathExists string
  | SpecFromFileLocation string string
  | ExecModule string string

record pystate =
  ordinary :: "nat \<Rightarrow> namespace"
  shadows :: "nat \<Rightarrow> compat_module"
  next_ordinary :: nat
  next_shadow :: nat
  sys_modules :: "string \<rightharpoonup> mod_ref"
  calls :: "host_call list"

text \<open>
  The host's namespace-resolution primitives, which the layer calls and does not
  implement. \<open>find_spec\<close> answers whether a spec was found (\<open>Inr False\<close> is \<^verbatim>\<open>None\<close>) or
  raises; \<open>import_module\<close> returns the imported module or raises;
  \<open>spec_from_file_location\<close> answers whether both the spec and its loader are not
  \<^verbatim>\<open>None\<close>; \<open>module_from_spec\<close> gives the namespace of the fresh module; \<open>exec_module\<close>
  gives the namespace the module has when execution ends and the exception that ended
  it, if any. Effects of an import or of an executed file on other objects are not
  modelled.
\<close>

record host =
  find_spec :: "string \<Rightarrow> py_exc + bool"
  import_module :: "string \<Rightarrow> py_exc + nat"
  path_exists :: "string \<Rightarrow> bool"
  spec_from_file_location :: "string \<Rightarrow> string \<Rightarrow> bool"
  module_from_spec :: "string \<Rightarrow> string \<Rightarrow> namespace"
  exec_module :: "string \<Rightarrow> string \<Rightarrow> namespace \<times> py_exc option"

definition log_call :: "host_call \<Rightarrow> pystate \<Rightarrow> pystate" where
  "log_call c st = st\<lparr>calls := calls st @ [c]\<rparr>"

definition quote :: "string \<Rightarrow> string" where
  "quote s = [CHR 0x27] @ s @ [CHR 0x27]"

definition setattr :: "mod_ref \<Rightarrow> string \<Rightarrow> pyval \<Rightarrow> pystate \<Rightarrow> pystate" where
  "setattr r name v st =
     (case r of
        Ordinary i \<Rightarrow> st\<lparr>ordinary := (ordinary st)(i := (ordinary st i)(name \<mapsto> v))\<rparr>
      | Shadow j \<Rightarrow>
          st\<lparr>shadows := (shadows st)
               (j := (shadows st j)\<lparr>module_dict := (module_dict (shadows st j))(name \<mapsto> v)\<rparr>)\<rparr>)"

subsection \<open>AiexecCompatibilityModule\<close>

text \<open>
  \<^verbatim>\<open>_get_lfx_module\<close>: the cached module if there is one; otherwise one call of the import
  primitive. An \<^verbatim>\<open>ImportError\<close> is replaced by an \<^verbatim>\<open>ImportError\<close> naming both modules and
  nothing is cached; an exception of another class passes through unchanged.
\<close>

definition get_lfx_module :: "host \<Rightarrow> nat \<Rightarrow> pystate \<Rightarrow> (py_exc + nat) \<times> pystate" where
  "get_lfx_module h j st =
     (case lfx_module (shadows st j) of
        Some c \<Rightarrow> (Inr c, st)
      | None \<Rightarrow>
          (let target = lfx_module_name (shadows st j);
               st1 = log_call (ImportModule target) st
           in case import_module h target of
                Inr c \<Rightarrow>
                  (Inr c, st1\<lparr>shadows := (shadows st1)(j := (shadows st1 j)\<lparr>lfx_module := Some c\<rparr>)\<rparr>)
              | Inl (ImportError m) \<Rightarrow>
                  (Inl (ImportError (''Cannot import '' @ target
                          @ '' for backwards compatibility with '' @ dunder_name (shadows st j))),
                   st1)
              | Inl e \<Rightarrow> (Inl e, st1)))"

text \<open>
  \<^verbatim>\<open>__getattr__\<close>: resolve the target (outside the \<^verbatim>\<open>try\<close>), read the name on it, and
  either raise the layer's own \<^verbatim>\<open>AttributeError\<close> or store the value on the node and
  return it.
\<close>

definition no_attribute :: "string \<Rightarrow> string \<Rightarrow> py_exc" where
  "no_attribute mname name =
     AttributeError (''module '' @ quote mname @ '' has no attribute '' @ quote name)"

definition dunder_getattr :: "host \<Rightarrow> nat \<Rightarrow> string \<Rightarrow> pystate \<Rightarrow> (py_exc + pyval) \<times> pystate" where
  "dunder_getattr h j name st =
     (case get_lfx_module h j st of
        (Inl e, st1) \<Rightarrow> (Inl e, st1)
      | (Inr c, st1) \<Rightarrow>
          (case ordinary st1 c name of
             None \<Rightarrow> (Inl (no_attribute (dunder_name (shadows st1 j)) name), st1)
           | Some attr \<Rightarrow> (Inr attr, setattr (Shadow j) name attr st1)))"

text \<open>
  \<^verbatim>\<open>__dir__\<close>: the names of the target's namespace (\<^verbatim>\<open>dir\<close> returns them sorted; the model
  keeps the set), or the empty listing when resolving raised \<^verbatim>\<open>ImportError\<close>.
\<close>

definition dunder_dir :: "host \<Rightarrow> nat \<Rightarrow> pystate \<Rightarrow> (py_exc + string set) \<times> pystate" where
  "dunder_dir h j st =
     (case get_lfx_module h j st of
        (Inr c, st1) \<Rightarrow> (Inr (dom (ordinary st1 c)), st1)
      | (Inl (ImportError m), st1) \<Rightarrow> (Inr {}, st1)
      | (Inl e, st1) \<Rightarrow> (Inl e, st1))"

text \<open>
  Reading an attribute of a module object, as the interpreter does it: the instance
  attributes first, and \<^verbatim>\<open>__getattr__\<close> only when the name is not among them.
\<close>

definition ordinary_name :: "namespace \<Rightarrow> string" where
  "ordinary_name ns = (case ns ''__name__'' of Some (VStr n) \<Rightarrow> n | _ \<Rightarrow> ''?'')"

definition py_getattr :: "host \<Rightarrow> mod_ref \<Rightarrow> string \<Rightarrow> pystate \<Rightarrow> (py_exc + pyval) \<times> pystate" where
  "py_getattr h r name st =
     (case r of
        Ordinary i \<Rightarrow>
          (case ordinary st i name of
             Some v \<Rightarrow> (Inr v, st)
           | None \<Rightarrow> (Inl (no_attribute (ordinary_name (ordinary st i)) name), st))
      | Shadow j \<Rightarrow>
          (case module_dict (shadows st j) name of
             Some v \<Rightarrow> (Inr v, st)
           | None \<Rightarrow>
               if name = ''__name__'' then (Inr (VStr (dunder_name (shadows st j))), st)
               else if name = ''_lfx_module_name'' then
                 (Inr (VStr (lfx_module_name (shadows st j))), st)
               else if name = ''_lfx_module'' then
                 (Inr (case lfx_module (shadows st j) of
                         None \<Rightarrow> VNone | Some c \<Rightarrow> VModule (Ordinary c)), st)
               else dunder_getattr h j name st))"

text \<open>\<^verbatim>\<open>getattr(sys.modules[mname], name)\<close>: the lookup by absolute dotted name.\<close>

definition registry_getattr :: "host \<Rightarrow> string \<Rightarrow> string \<Rightarrow> pystate \<Rightarrow> (py_exc + pyval) \<times> pystate" where
  "registry_getattr h mname name st =
     (case sys_modules st mname of
        None \<Rightarrow> (Inl (KeyError mname), st)
      | Some r \<Rightarrow> py_getattr h r name st)"

subsection \<open>Dotted names\<close>

text \<open>\<^verbatim>\<open>name.split(".")\<close> and \<^verbatim>\<open>".".join(parts)\<close>.\<close>

fun split_acc :: "string \<Rightarrow> string \<Rightarrow> string list" where
  "split_acc acc [] = [rev acc]"
| "split_acc acc (c # cs) =
     (if c = CHR ''.'' then rev acc # split_acc [] cs else split_acc (c # acc) cs)"

definition split_dot :: "string \<Rightarrow> string list" where
  "split_dot s = split_acc [] s"

fun join_dot :: "string list \<Rightarrow> string" where
  "join_dot [] = []"
| "join_dot [p] = p"
| "join_dot (p # ps) = p @ ''.'' @ join_dot ps"

subsection \<open>_setup_compatibility_modules\<close>

definition module_mappings :: "(string \<times> string) list" where
  "module_mappings =
     [
      (''aiexec.base'', ''lfx.base''),
      (''aiexec.inputs'', ''lfx.inputs''),
      (''aiexec.inputs.inputs'', ''lfx.inputs.inputs''),
      (''aiexec.schema'', ''lfx.schema''),
      (''aiexec.schema.data'', ''lfx.schema.data''),
      (''aiexec.schema.serialize'', ''lfx.schema.serialize''),
      (''aiexec.template'', ''lfx.template''),
      (''aiexec.template.field'', ''lfx.template.field''),
      (''aiexec.template.field.base'', ''lfx.template.field.base''),
      (''aiexec.components'', ''lfx.components''),
      (''aiexec.components.helpers'', ''lfx.components.helpers''),
      (''aiexec.components.helpers.calculator_core'', ''lfx.components.helpers.calculator_core''),
      (''aiexec.components.helpers.create_list'', ''lfx.components.helpers.create_list''),
      (''aiexec.components.helpers.current_date'', ''lfx.components.helpers.current_date''),
      (''aiexec.components.helpers.id_generator'', ''lfx.components.helpers.id_generator''),
      (''aiexec.components.helpers.memory'', ''lfx.components.helpers.memory''),
      (''aiexec.components.helpers.output_parser'', ''lfx.components.helpers.output_parser''),
      (''aiexec.components.helpers.store_message'', ''lfx.components.helpers.store_message''),
      (''aiexec.base.agents'', ''lfx.base.agents''),
      (''aiexec.base.chains'', ''lfx.base.chains''),
      (''aiexec.base.data'', ''lfx.base.data''),
      (''aiexec.base.data.utils'', ''lfx.base.data.utils''),
      (''aiexec.base.document_transformers'', ''lfx.base.document_transformers''),
      (''aiexec.base.embeddings'', ''lfx.base.embeddings''),
      (''aiexec.base.flow_processing'', ''lfx.base.flow_processing''),
      (''aiexec.base.io'', ''lfx.base.io''),
      (''aiexec.base.io.chat'', ''lfx.base.io.chat''),
      (''aiexec.base.io.text'', ''lfx.base.io.text''),
      (''aiexec.base.langchain_utilities'', ''lfx.base.langchain_utilities''),
      (''aiexec.base.memory'', ''lfx.base.memory''),
      (''aiexec.base.models'', ''lfx.base.models''),
      (''aiexec.base.models.google_generative_ai_constants'', ''lfx.base.models.google_generative_ai_constants''),
      (''aiexec.base.models.openai_constants'', ''lfx.base.models.openai_constants''),
      (''aiexec.base.models.anthropic_constants'', ''lfx.base.models.anthropic_constants''),
      (''aiexec.base.models.aiml_constants'', ''lfx.base.models.aiml_constants''),
      (''aiexec.base.models.aws_constants'', ''lfx.base.models.aws_constants''),
      (''aiexec.base.models.groq_constants'', ''lfx.base.models.groq_constants''),
      (''aiexec.base.models.novita_constants'', ''lfx.base.models.novita_constants''),
      (''aiexec.base.models.ollama_constants'', ''lfx.base.models.ollama_constants''),
      (''aiexec.base.models.sambanova_constants'', ''lfx.base.models.sambanova_constants''),
      (''aiexec.base.prompts'', ''lfx.base.prompts''),
      (''aiexec.base.prompts.api_utils'', ''lfx.base.prompts.api_utils''),
      (''aiexec.base.prompts.utils'', ''lfx.base.prompts.utils''),
      (''aiexec.base.textsplitters'', ''lfx.base.textsplitters''),
      (''aiexec.base.tools'', ''lfx.base.tools''),
      (''aiexec.base.vectorstores'', ''lfx.base.vectorstores'')
     ]"

definition aiexec_only_modules :: "string list" where
  "aiexec_only_modules =
     [''aiexec.base.data.kb_utils'',
      ''aiexec.base.knowledge_bases'',
      ''aiexec.components.knowledge_bases'']"

text \<open>The fresh node: \<^verbatim>\<open>ModuleType.__init__\<close> gives it four attributes that are \<^verbatim>\<open>None\<close>.\<close>

definition new_compat_module :: "string \<Rightarrow> string \<Rightarrow> compat_module" where
  "new_compat_module name target =
     \<lparr>dunder_name = name, lfx_module_name = target, lfx_module = None,
      module_dict = [''__doc__'' \<mapsto> VNone, ''__package__'' \<mapsto> VNone,
                     ''__loader__'' \<mapsto> VNone, ''__spec__'' \<mapsto> VNone]\<rparr>"

text \<open>
  "Set up the module hierarchy": the parent is looked up in the registry after the node
  has been stored there.
\<close>

definition link_hierarchy :: "string \<Rightarrow> mod_ref \<Rightarrow> pystate \<Rightarrow> pystate" where
  "link_hierarchy aiexec_name m st =
     (let parts = split_dot aiexec_name in
      if length parts > 1 then
        (case sys_modules st (join_dot (butlast parts)) of
           None \<Rightarrow> st
         | Some parent_module \<Rightarrow> setattr parent_module (last parts) (VModule m) st)
      else st)"

text \<open>"Special handling for top-level modules": the attribute set on the package itself.\<close>

definition top_level_attr :: "string \<Rightarrow> string option" where
  "top_level_attr aiexec_name =
     (if aiexec_name = ''aiexec.base'' then Some ''base''
      else if aiexec_name = ''aiexec.inputs'' then Some ''inputs''
      else if aiexec_name = ''aiexec.schema'' then Some ''schema''
      else if aiexec_name = ''aiexec.template'' then Some ''template''
      else if aiexec_name = ''aiexec.components'' then Some ''components''
      else None)"

text \<open>The \<^verbatim>\<open>except (ImportError, ValueError)\<close> of the first loop.\<close>

fun import_or_value_error :: "py_exc \<Rightarrow> bool" where
  "import_or_value_error (ImportError m) = True"
| "import_or_value_error ValueError = True"
| "import_or_value_error _ = False"

text \<open>
  The body of the first loop, for one entry of \<^verbatim>\<open>module_mappings\<close>. The result is the
  exception that leaves the loop, if any, and the state.
\<close>

definition register_compat ::
  "host \<Rightarrow> mod_ref \<Rightarrow> string \<times> string \<Rightarrow> pystate \<Rightarrow> py_exc option \<times> pystate" where
  "register_compat h current_module entry st =
     (let aiexec_name = fst entry; lfx_name = snd entry in
      if aiexec_name \<in> dom (sys_modules st) then (None, st)
      else
        (let st1 = log_call (FindSpec lfx_name) st in
         case find_spec h lfx_name of
           Inl e \<Rightarrow> (if import_or_value_error e then None else Some e, st1)
         | Inr False \<Rightarrow> (None, st1)
         | Inr True \<Rightarrow>
             (let j = next_shadow st1;
                  st2 = st1\<lparr>shadows := (shadows st1)(j := new_compat_module aiexec_name lfx_name),
                            next_shadow := Suc j,
                            sys_modules := (sys_modules st1)(aiexec_name \<mapsto> Shadow j)\<rparr>;
                  st3 = link_hierarchy aiexec_name (Shadow j) st2
              in (None,
                  case top_level_attr aiexec_name of
                    None \<Rightarrow> st3
                  | Some a \<Rightarrow> setattr current_module a (VModule (Shadow j)) st3))))"

text \<open>
  The three physical modules of the second loop: the file below the package directory,
  the parent's registry name and the attribute set on the parent.
\<close>

definition override_source :: "string \<Rightarrow> (string \<times> string \<times> string) option" where
  "override_source aiexec_name =
     (if aiexec_name = ''aiexec.base.data.kb_utils'' then
        Some (''base/data/kb_utils.py'', ''aiexec.base.data'', ''kb_utils'')
      else if aiexec_name = ''aiexec.base.knowledge_bases'' then
        Some (''base/knowledge_bases/__init__.py'', ''aiexec.base'', ''knowledge_bases'')
      else if aiexec_name = ''aiexec.components.knowledge_bases'' then
        Some (''components/knowledge_bases/__init__.py'', ''aiexec.components'',
              ''knowledge_bases'')
      else None)"

text \<open>The \<^verbatim>\<open>except (ImportError, AttributeError)\<close> of the second loop.\<close>

fun import_or_attribute_error :: "py_exc \<Rightarrow> bool" where
  "import_or_attribute_error (ImportError m) = True"
| "import_or_attribute_error (AttributeError m) = True"
| "import_or_attribute_error _ = False"

text \<open>
  The body of the second loop. The module is stored in the registry before its file is
  executed, and the parent is linked after the execution has returned.
\<close>

definition register_aiexec_only :: "host \<Rightarrow> string \<Rightarrow> pystate \<Rightarrow> py_exc option \<times> pystate" where
  "register_aiexec_only h aiexec_name st =
     (if aiexec_name \<in> dom (sys_modules st) then (None, st)
      else
        (case override_source aiexec_name of
           None \<Rightarrow> (None, st)
         | Some (file, parent_name, attr) \<Rightarrow>
             (let st1 = log_call (PathExists file) st in
              if \<not> path_exists h file then (None, st1)
              else
                (let st2 = log_call (SpecFromFileLocation aiexec_name file) st1 in
                 if \<not> spec_from_file_location h aiexec_name file then (None, st2)
                 else
                   (let i = next_ordinary st2;
                        st3 = st2\<lparr>ordinary := (ordinary st2)(i := module_from_spec h aiexec_name file),
                                  next_ordinary := Suc i,
                                  sys_modules := (sys_modules st2)(aiexec_name \<mapsto> Ordinary i)\<rparr>;
                        st4 = log_call (ExecModule aiexec_name file) st3;
                        st5 = st4\<lparr>ordinary := (ordinary st4)(i := fst (exec_module h aiexec_name file))\<rparr>
                    in case snd (exec_module h aiexec_name file) of
                         Some e \<Rightarrow> (if import_or_attribute_error e then None else Some e, st5)
                       | None \<Rightarrow>
                           (None,
                            case sys_modules st5 parent_name of
                              None \<Rightarrow> st5
                            | Some parent_module \<Rightarrow>
                                setattr parent_module attr (VModule (Ordinary i)) st5))))))"

text \<open>A \<^verbatim>\<open>for\<close> loop whose body may raise: the first exception ends the loop.\<close>

fun for_each :: "('a \<Rightarrow> pystate \<Rightarrow> py_exc option \<times> pystate) \<Rightarrow> 'a list \<Rightarrow> pystate
                 \<Rightarrow> py_exc option \<times> pystate" where
  "for_each body [] st = (None, st)"
| "for_each body (x # xs) st =
     (case body x st of
        (Some e, st1) \<Rightarrow> (Some e, st1)
      | (None, st1) \<Rightarrow> for_each body xs st1)"

text \<open>
  \<^verbatim>\<open>_setup_compatibility_modules\<close>, run by the package whose \<^verbatim>\<open>__name__\<close> is \<open>this_name\<close>:
  \<^verbatim>\<open>sys.modules[__name__]\<close>, then the two loops.
\<close>

definition setup_compatibility_modules :: "host \<Rightarrow> string \<Rightarrow> pystate \<Rightarrow> py_exc option \<times> pystate" where
  "setup_compatibility_modules h this_name st =
     (case sys_modules st this_name of
        None \<Rightarrow> (Some (KeyError this_name), st)
      | Some current_module \<Rightarrow>
          (case for_each (register_compat h current_module) module_mappings st of
             (Some e, st1) \<Rightarrow> (Some e, st1)
           | (None, st1) \<Rightarrow> for_each (register_aiexec_only h) aiexec_only_modules st1))"

subsection \<open>Notions used to state the properties\<close>

text \<open>The instance attributes (\<^verbatim>\<open>__dict__\<close>) of a module object of either kind.\<close>

definition module_namespace :: "pystate \<Rightarrow> mod_ref \<Rightarrow> namespace" where
  "module_namespace st r =
     (case r of Ordinary i \<Rightarrow> ordinary st i | Shadow j \<Rightarrow> module_dict (shadows st j))"

text \<open>
  The canonical target of node \<open>j\<close> resolves to the module \<open>c\<close>: it is already cached, or
  the import primitive returns it now.
\<close>

definition resolves_to :: "host \<Rightarrow> pystate \<Rightarrow> nat \<Rightarrow> nat \<Rightarrow> bool" where
  "resolves_to h st j c \<longleftrightarrow>
     lfx_module (shadows st j) = Some c \<or>
     (lfx_module (shadows st j) = None \<and> import_module h (lfx_module_name (shadows st j)) = Inr c)"

text \<open>
  The existence probe finds no canonical namespace: \<^verbatim>\<open>find_spec\<close> returns \<^verbatim>\<open>None\<close> or raises
  one of the two classes the first loop catches.
\<close>

definition probe_says_absent :: "host \<Rightarrow> string \<Rightarrow> bool" where
  "probe_says_absent h lfx_name \<longleftrightarrow>
     (case find_spec h lfx_name of Inr found \<Rightarrow> \<not> found | Inl e \<Rightarrow> import_or_value_error e)"

fun raises_import_error :: "py_exc + 'a \<Rightarrow> bool" where
  "raises_import_error (Inl (ImportError m)) = True"
| "raises_import_error _ = False"

subsection \<open>A small host and registry\<close>

text \<open>
  A host in which \<open>p.q\<close> exists and exposes \<open>VALUE = 42\<close>, \<open>p.broken\<close> is found by the probe
  but fails to import, \<open>p.crash\<close> is found and raises a \<^verbatim>\<open>RuntimeError\<close> while it is
  imported, and nothing else exists. Of the three physical modules, the file of
  \<open>kb_utils\<close> is absent, that of \<open>aiexec.base.knowledge_bases\<close> fails on a missing
  dependency and that of \<open>aiexec.components.knowledge_bases\<close> has a syntax error.
\<close>

definition example_host :: host where
  "example_host =
     \<lparr>find_spec = (\<lambda>n. Inr (n = ''p.q'' \<or> n = ''p.broken'' \<or> n = ''p.crash'')),
      import_module =
        (\<lambda>n. if n = ''p.q'' then Inr 1
             else if n = ''p.crash'' then Inl (OtherException ''RuntimeError'')
             else Inl (ImportError (''No module named '' @ n))),
      path_exists = (\<lambda>f. f \<noteq> ''base/data/kb_utils.py''),
      spec_from_file_location = (\<lambda>n f. True),
      module_from_spec = (\<lambda>n f. [''__name__'' \<mapsto> VStr n]),
      exec_module =
        (\<lambda>n f. ([''__name__'' \<mapsto> VStr n],
                 if n = ''aiexec.base.knowledge_bases''
                 then Some (ImportError ''No module named chromadb'')
                 else if n = ''aiexec.components.knowledge_bases''
                 then Some (OtherException ''SyntaxError'')
                 else None))\<rparr>"

text \<open>
  A registry holding the package \<open>x\<close>, and the shadows \<open>x.y\<close> of \<open>p.q\<close>, \<open>x.w\<close> of
  \<open>p.broken\<close> and \<open>x.v\<close> of \<open>p.crash\<close>, none of them resolved yet.
\<close>

definition example_state :: pystate where
  "example_state =
     \<lparr>ordinary = (\<lambda>i. Map.empty)
        (0 := [''__name__'' \<mapsto> VStr ''x''],
         1 := [''__name__'' \<mapsto> VStr ''p.q'', ''VALUE'' \<mapsto> VInt 42]),
      shadows = (\<lambda>j. new_compat_module [] [])
        (0 := new_compat_module ''x.y'' ''p.q'',
         1 := new_compat_module ''x.w'' ''p.broken'',
         2 := new_compat_module ''x.v'' ''p.crash''),
      next_ordinary = 2,
      next_shadow = 3,
      sys_modules = [''x'' \<mapsto> Ordinary 0, ''x.y'' \<mapsto> Shadow 0, ''x.w'' \<mapsto> Shadow 1,
                     ''x.v'' \<mapsto> Shadow 2],
      calls = []\<rparr>"

text \<open>The same state after the canonical module \<open>p.q\<close> has rebound \<open>VALUE\<close>.\<close>

definition rebind_value :: "pystate \<Rightarrow> pystate" where
  "rebind_value st = st\<lparr>ordinary := (ordinary st)(1 := (ordinary st 1)(''VALUE'' \<mapsto> VInt 7))\<rparr>"

text \<open>The state the first read of \<open>VALUE\<close> through \<open>x.y\<close> leaves.\<close>

definition after_first_read :: pystate where
  "after_first_read = snd (dunder_getattr example_host 0 ''VALUE'' example_state)"

text \<open>A host in which nothing can be found, imported or loaded any more.\<close>

definition failing_host :: host where
  "failing_host =
     \<lparr>find_spec = (\<lambda>n. Inr False),
      import_module = (\<lambda>n. Inl (ImportError (''No module named '' @ n))),
      path_exists = (\<lambda>f. False),
      spec_from_file_location = (\<lambda>n f. False),
      module_from_spec = (\<lambda>n f. Map.empty),
      exec_module = (\<lambda>n f. (Map.empty, Some (ImportError ''unavailable'')))\<rparr>"

definition one_node_flow :: "string \<Rightarrow> json" where
  "one_node_flow t =
     JDict [(''data'', JDict [(''nodes'',
        JList [JDict [(''id'', JStr ''n1''), (''data'', JDict [(''type'', JStr t)])]])])]"

definition two_node_flow :: "string \<Rightarrow> json" where
  "two_node_flow t =
     JDict [(''data'', JDict [(''nodes'',
        JList [JDict [(''id'', JStr ''n1''), (''data'', JDict [(''type'', JStr t)])],
               JDict [(''id'', JStr ''n2''), (''data'', JDict [(''type'', JStr t)])]])])]"

section \<open>Properties of the settings and of the flow helper\<close>

lemma lower_false: "lower ''false'' \<noteq> ''true''"
  by (simp add: lower_def lower_char_def)

text \<open>
  C9: the development-mode flag is true exactly when \<open>AIEXEC_DEV\<close> is set and its
  value, lowercased, is \<open>true\<close>; when the variable is unset the flag is false.
\<close>

theorem DEV_iff_set_to_true:
  "DEV env = (case env ''AIEXEC_DEV'' of None \<Rightarrow> False | Some v \<Rightarrow> lower v = ''true'')"
  by (simp add: DEV_def getenv_def lower_false split: option.split)

lemma DEV_mixed_case: "DEV [''AIEXEC_DEV'' \<mapsto> ''TrUe''] \<and> \<not> DEV [''AIEXEC_DEV'' \<mapsto> ''1'']"
  by code_simp

lemma select_by_type_none:
  "\<forall>n\<in>set ns. \<exists>s. node_type n = Inr (JStr s) \<and> s \<noteq> t \<Longrightarrow> select_by_type t ns = Inr []"
  by (induction ns) auto

lemma first_by_type_none:
  "\<forall>n\<in>set ns. \<exists>s. node_type n = Inr (JStr s) \<and> s \<noteq> t \<Longrightarrow> first_by_type t ns = Inr None"
  by (induction ns) auto

lemma available_types_strings:
  "\<forall>n\<in>set ns. \<exists>s. node_type n = Inr (JStr s) \<and> s \<noteq> t \<Longrightarrow>
   \<exists>tys. available_types ns = Inr tys \<and> list_all is_JStr tys"
  by (induction ns) auto

lemma not_found_error_ValueError:
  "\<forall>n\<in>set ns. \<exists>s. node_type n = Inr (JStr s) \<and> s \<noteq> t \<Longrightarrow> not_found_error ns = ValueError"
  using available_types_strings[of ns t] by (auto simp: not_found_error_def)

text \<open>
  C10: when no node has the requested type, \<open>get_single_component\<close> fails with
  \<^verbatim>\<open>IndexError\<close> (the subscript of the empty list), not with the \<^verbatim>\<open>ValueError\<close> it raises
  for several matches; it returns a node exactly when that node is the only match. On
  a flow whose node types are all strings different from the requested one,
  \<open>get_component_by_type\<close> raises \<^verbatim>\<open>ValueError\<close> where \<open>get_single_component\<close> raises
  \<^verbatim>\<open>IndexError\<close>.
\<close>

theorem get_single_component_zero_one_many:
  "(get_components_by_type flow t = Inr [] \<longrightarrow> get_single_component flow t = Inl IndexError) \<and>
   (get_single_component flow t = Inr n \<longleftrightarrow> get_components_by_type flow t = Inr [n]) \<and>
   (\<forall>cs. get_components_by_type flow t = Inr cs \<and> 1 < length cs \<longrightarrow>
      get_single_component flow t = Inl ValueError) \<and>
   (flow_nodes flow = Inr ns \<and> (\<forall>n\<in>set ns. \<exists>s. node_type n = Inr (JStr s) \<and> s \<noteq> t) \<longrightarrow>
      get_single_component flow t = Inl IndexError \<and>
      get_component_by_type flow t = Inl ValueError)"
proof (intro conjI impI allI)
  assume "get_components_by_type flow t = Inr []"
  then show "get_single_component flow t = Inl IndexError"
    by (simp add: get_single_component_def)
next
  show "get_single_component flow t = Inr n \<longleftrightarrow> get_components_by_type flow t = Inr [n]"
    by (auto simp: get_single_component_def split: sum.splits list.splits if_splits)
next
  fix cs assume "get_components_by_type flow t = Inr cs \<and> 1 < length cs"
  then show "get_single_component flow t = Inl ValueError"
    by (simp add: get_single_component_def)
next
  assume a: "flow_nodes flow = Inr ns \<and> (\<forall>n\<in>set ns. \<exists>s. node_type n = Inr (JStr s) \<and> s \<noteq> t)"
  then have "get_components_by_type flow t = Inr []"
    by (simp add: get_components_by_type_def select_by_type_none)
  then show "get_single_component flow t = Inl IndexError"
    by (simp add: get_single_component_def)
  from a show "get_component_by_type flow t = Inl ValueError"
    using not_found_error_ValueError[of ns t]
    by (simp add: get_component_by_type_def first_by_type_none)
qed

lemma one_node_flow_nodes:
  "flow_nodes (one_node_flow t) =
     Inr [JDict [(''id'', JStr ''n1''), (''data'', JDict [(''type'', JStr t)])]]"
  by (simp add: flow_nodes_def one_node_flow_def)

lemma one_node_type:
  "node_type (JDict [(''id'', JStr ''n1''), (''data'', JDict [(''type'', JStr t)])]) = Inr (JStr t)"
  by (simp add: node_type_def)

theorem get_single_component_zero_one_many_witness:
  "get_components_by_type (one_node_flow ''ChatInput'') ''Prompt'' = Inr [] \<and>
   get_single_component (one_node_flow ''ChatInput'') ''Prompt'' = Inl IndexError \<and>
   get_component_by_type (one_node_flow ''ChatInput'') ''Prompt'' = Inl ValueError \<and>
   get_single_component (one_node_flow ''Prompt'') ''Prompt''
     = Inr (JDict [(''id'', JStr ''n1''), (''data'', JDict [(''type'', JStr ''Prompt'')])]) \<and>
   1 < length [JDict [(''id'', JStr ''n1''), (''data'', JDict [(''type'', JStr ''Prompt'')])],
               JDict [(''id'', JStr ''n2''), (''data'', JDict [(''type'', JStr ''Prompt'')])]] \<and>
   get_single_component (two_node_flow ''Prompt'') ''Prompt'' = Inl ValueError"
proof -
  let ?n1 = "JDict [(''id'', JStr ''n1''), (''data'', JDict [(''type'', JStr ''Prompt'')])]"
  let ?n2 = "JDict [(''id'', JStr ''n2''), (''data'', JDict [(''type'', JStr ''Prompt'')])]"
  let ?c1 = "JDict [(''id'', JStr ''n1''), (''data'', JDict [(''type'', JStr ''ChatInput'')])]"
  have zero: "get_components_by_type (one_node_flow ''ChatInput'') ''Prompt'' = Inr []"
    by (simp add: get_components_by_type_def one_node_flow_nodes one_node_type)
  have nodes: "flow_nodes (one_node_flow ''ChatInput'') = Inr [?c1] \<and>
      (\<forall>n\<in>set [?c1]. \<exists>s. node_type n = Inr (JStr s) \<and> s \<noteq> ''Prompt'')"
    by (simp add: one_node_flow_nodes one_node_type)
  have one: "get_components_by_type (one_node_flow ''Prompt'') ''Prompt'' = Inr [?n1]"
    by (simp add: get_components_by_type_def one_node_flow_nodes one_node_type)
  have many: "get_components_by_type (two_node_flow ''Prompt'') ''Prompt'' = Inr [?n1, ?n2]"
    by (simp add: get_components_by_type_def flow_nodes_def two_node_flow_def node_type_def)
  from zero nodes one many
    get_single_component_zero_one_many[of "one_node_flow ''ChatInput''" "''Prompt''" ?c1 "[?c1]"]
    get_single_component_zero_one_many[of "one_node_flow ''Prompt''" "''Prompt''" ?n1 "[]"]
    get_single_component_zero_one_many[of "two_node_flow ''Prompt''" "''Prompt''" ?n1 "[]"]
  show ?thesis by simp
qed

section \<open>Properties of the compatibility layer\<close>

subsection \<open>Resolution and attribute forwarding\<close>

lemma get_lfx_module_resolves:
  "resolves_to h st j c \<Longrightarrow>
   \<exists>st1. get_lfx_module h j st = (Inr c, st1) \<and> ordinary st1 = ordinary st \<and>
         dunder_name (shadows st1 j) = dunder_name (shadows st j) \<and>
         module_dict (shadows st1 j) = module_dict (shadows st j)"
  by (auto simp: resolves_to_def get_lfx_module_def log_call_def Let_def)

lemma example_node_0:
  "lfx_module (shadows example_state 0) = None \<and>
   lfx_module_name (shadows example_state 0) = ''p.q'' \<and>
   dunder_name (shadows example_state 0) = ''x.y''"
  by (simp add: example_state_def new_compat_module_def)

lemma example_node_1:
  "lfx_module (shadows example_state 1) = None \<and>
   lfx_module_name (shadows example_state 1) = ''p.broken'' \<and>
   dunder_name (shadows example_state 1) = ''x.w''"
  by (simp add: example_state_def new_compat_module_def)

lemma example_node_2:
  "lfx_module (shadows example_state 2) = None \<and>
   lfx_module_name (shadows example_state 2) = ''p.crash'' \<and>
   dunder_name (shadows example_state 2) = ''x.v''"
  by (simp add: example_state_def new_compat_module_def)

lemma example_imports:
  "import_module example_host ''p.q'' = Inr 1 \<and>
   import_module example_host ''p.broken'' = Inl (ImportError ''No module named p.broken'') \<and>
   import_module example_host ''p.crash'' = Inl (OtherException ''RuntimeError'')"
  by (simp add: example_host_def)

lemma example_resolves: "resolves_to example_host example_state 0 1"
  by (simp add: resolves_to_def example_node_0 example_imports)

lemma example_canonical:
  "ordinary example_state 1 ''VALUE'' = Some (VInt 42) \<and>
   ordinary example_state 1 ''MISSING'' = None \<and>
   dom (ordinary example_state 1) = {''__name__'', ''VALUE''}"
  by (auto simp: example_state_def)

text \<open>
  C1: for a shadow node whose canonical target resolves to the module \<open>c\<close>, and an
  attribute that exists on \<open>c\<close>, \<^verbatim>\<open>__getattr__\<close> on the node returns the value that
  reading the attribute on \<open>c\<close> returns.
\<close>

theorem shadow_read_matches_canonical:
  assumes "resolves_to h st j c" and "ordinary st c name = Some v"
  shows "fst (dunder_getattr h j name st) = Inr v \<and>
         fst (py_getattr h (Ordinary c) name st) = Inr v"
proof -
  from assms(1) obtain st1 where "get_lfx_module h j st = (Inr c, st1)" "ordinary st1 = ordinary st"
    using get_lfx_module_resolves by blast
  with assms(2) show ?thesis
    by (simp add: dunder_getattr_def py_getattr_def)
qed

theorem shadow_read_matches_canonical_witness:
  "resolves_to example_host example_state 0 1 \<and>
   ordinary example_state 1 ''VALUE'' = Some (VInt 42) \<and>
   fst (dunder_getattr example_host 0 ''VALUE'' example_state) = Inr (VInt 42) \<and>
   fst (py_getattr example_host (Ordinary 1) ''VALUE'' example_state) = Inr (VInt 42)"
  using shadow_read_matches_canonical[of example_host example_state 0 1 "''VALUE''" "VInt 42"]
    example_resolves example_canonical
  by simp

lemma module_dict_setattr:
  "module_dict (shadows (setattr (Shadow j) name v st) j) name = Some v"
  by (simp add: setattr_def)

text \<open>
  C2: after a successful forwarded lookup of a name, the value is stored on the node.
  In every later state in which the node's own attributes are as the lookup left them,
  whatever has happened to the canonical modules and whatever the host would answer,
  reading the name on the node returns that value and changes nothing: no call of the
  import primitive is recorded and the canonical module is not consulted.
\<close>

theorem cached_after_first_lookup:
  assumes "dunder_getattr h j name st = (Inr v, st1)"
  shows "module_dict (shadows st1 j) name = Some v \<and>
         (\<forall>h' st2. module_dict (shadows st2 j) = module_dict (shadows st1 j) \<longrightarrow>
            py_getattr h' (Shadow j) name st2 = (Inr v, st2))"
proof -
  from assms have d: "module_dict (shadows st1 j) name = Some v"
    by (auto simp: dunder_getattr_def module_dict_setattr
             split: prod.splits sum.splits option.splits)
  then show ?thesis by (simp add: py_getattr_def)
qed

lemma example_first_read:
  "dunder_getattr example_host 0 ''VALUE'' example_state = (Inr (VInt 42), after_first_read)"
proof -
  have "get_lfx_module example_host 0 example_state =
          (Inr 1, snd (get_lfx_module example_host 0 example_state))"
    by (simp add: get_lfx_module_def Let_def example_node_0 example_imports)
  moreover have "ordinary (snd (get_lfx_module example_host 0 example_state)) 1 ''VALUE''
                   = Some (VInt 42)"
    using example_canonical
    by (simp add: get_lfx_module_def Let_def log_call_def example_node_0 example_imports)
  ultimately have "fst (dunder_getattr example_host 0 ''VALUE'' example_state) = Inr (VInt 42)"
    by (auto simp: dunder_getattr_def split: prod.splits)
  then show ?thesis
    by (simp add: after_first_read_def prod_eq_iff)
qed

theorem cached_after_first_lookup_witness:
  "dunder_getattr example_host 0 ''VALUE'' example_state = (Inr (VInt 42), after_first_read) \<and>
   module_dict (shadows (rebind_value after_first_read) 0)
     = module_dict (shadows after_first_read 0) \<and>
   py_getattr failing_host (Shadow 0) ''VALUE'' (rebind_value after_first_read)
     = (Inr (VInt 42), rebind_value after_first_read)"
proof -
  have same: "module_dict (shadows (rebind_value after_first_read) 0)
     = module_dict (shadows after_first_read 0)"
    by (simp add: rebind_value_def)
  from cached_after_first_lookup[OF example_first_read] same example_first_read
  show ?thesis by blast
qed

text \<open>
  C3: for a shadow node whose canonical target resolves to \<open>c\<close>, \<^verbatim>\<open>__getattr__\<close> for a
  name that is absent on \<open>c\<close> raises an \<^verbatim>\<open>AttributeError\<close> whose message names the shadow
  module and the attribute, and the attributes stored on the node are unchanged.
  (The interpreter calls \<^verbatim>\<open>__getattr__\<close> when the node itself holds no attribute of
  that name.)
\<close>

theorem missing_attribute_raises:
  assumes "resolves_to h st j c" and "ordinary st c name = None"
  shows "fst (dunder_getattr h j name st) =
           Inl (AttributeError (''module '' @ quote (dunder_name (shadows st j))
                  @ '' has no attribute '' @ quote name)) \<and>
         module_dict (shadows (snd (dunder_getattr h j name st)) j) = module_dict (shadows st j)"
proof -
  from assms(1) obtain st1 where "get_lfx_module h j st = (Inr c, st1)" "ordinary st1 = ordinary st"
    "dunder_name (shadows st1 j) = dunder_name (shadows st j)"
    "module_dict (shadows st1 j) = module_dict (shadows st j)"
    using get_lfx_module_resolves by blast
  with assms(2) show ?thesis
    by (simp add: dunder_getattr_def no_attribute_def)
qed

theorem missing_attribute_raises_witness:
  "resolves_to example_host example_state 0 1 \<and>
   ordinary example_state 1 ''MISSING'' = None \<and>
   fst (dunder_getattr example_host 0 ''MISSING'' example_state) =
     Inl (AttributeError (''module '' @ quote ''x.y'' @ '' has no attribute '' @ quote ''MISSING'')) \<and>
   module_dict (shadows (snd (dunder_getattr example_host 0 ''MISSING'' example_state)) 0)
     = module_dict (shadows example_state 0)"
  using missing_attribute_raises[of example_host example_state 0 1 "''MISSING''"]
    example_resolves example_canonical example_node_0
  by simp

subsection \<open>Registration\<close>

lemma sys_modules_setattr [simp]: "sys_modules (setattr r name v st) = sys_modules st"
  by (simp add: setattr_def split: mod_ref.splits)

lemma sys_modules_log_call [simp]: "sys_modules (log_call c st) = sys_modules st"
  by (simp add: log_call_def)

lemma sys_modules_link_hierarchy [simp]: "sys_modules (link_hierarchy n m st) = sys_modules st"
  by (simp add: link_hierarchy_def Let_def split: option.splits)

lemma example_registry:
  "sys_modules example_state ''x'' = Some (Ordinary 0) \<and>
   sys_modules example_state ''x.y'' = Some (Shadow 0) \<and>
   sys_modules example_state ''x.z'' = None \<and>
   sys_modules example_state ''x.u'' = None \<and>
   sys_modules example_state ''orphan'' = None \<and>
   sys_modules example_state ''orphan.u'' = None \<and>
   sys_modules example_state ''aiexec.base.data.kb_utils'' = None \<and>
   sys_modules example_state ''aiexec.base.knowledge_bases'' = None \<and>
   sys_modules example_state ''aiexec.components.knowledge_bases'' = None"
  by (simp add: example_state_def)

lemma example_probe:
  "find_spec example_host ''p.q'' = Inr True \<and> find_spec example_host ''p.missing'' = Inr False"
  by (simp add: example_host_def)

text \<open>
  C4, as the code has it: when the probe finds no canonical namespace, registering is a
  silent no-op that creates no node, so the shadow name stays absent from the registry
  and a lookup of it there fails as an unregistered name. The \<^verbatim>\<open>ImportError\<close> of the layer
  is what every attribute access raises on a node that was registered and whose
  canonical module then fails to import; the node stays unresolved.
\<close>

theorem register_absent_target_creates_no_node:
  "(aiexec_name \<notin> dom (sys_modules st) \<and> probe_says_absent h lfx_name \<longrightarrow>
      register_compat h current_module (aiexec_name, lfx_name) st
        = (None, log_call (FindSpec lfx_name) st) \<and>
      registry_getattr h' aiexec_name name (log_call (FindSpec lfx_name) st)
        = (Inl (KeyError aiexec_name), log_call (FindSpec lfx_name) st)) \<and>
   (lfx_module (shadows st j) = None \<and>
    import_module h (lfx_module_name (shadows st j)) = Inl (ImportError m) \<longrightarrow>
      fst (dunder_getattr h j name st)
        = Inl (ImportError (''Cannot import '' @ lfx_module_name (shadows st j)
                 @ '' for backwards compatibility with '' @ dunder_name (shadows st j))) \<and>
      shadows (snd (dunder_getattr h j name st)) = shadows st)"
proof (intro conjI impI)
  assume a: "aiexec_name \<notin> dom (sys_modules st) \<and> probe_says_absent h lfx_name"
  then show "register_compat h current_module (aiexec_name, lfx_name) st
        = (None, log_call (FindSpec lfx_name) st)"
    by (auto simp: register_compat_def probe_says_absent_def Let_def split: sum.splits bool.splits)
  from a have "sys_modules st aiexec_name = None" by blast
  then show "registry_getattr h' aiexec_name name (log_call (FindSpec lfx_name) st)
        = (Inl (KeyError aiexec_name), log_call (FindSpec lfx_name) st)"
    by (simp add: registry_getattr_def)
next
  assume b: "lfx_module (shadows st j) = None \<and>
    import_module h (lfx_module_name (shadows st j)) = Inl (ImportError m)"
  then have g: "get_lfx_module h j st =
     (Inl (ImportError (''Cannot import '' @ lfx_module_name (shadows st j)
                 @ '' for backwards compatibility with '' @ dunder_name (shadows st j))),
      log_call (ImportModule (lfx_module_name (shadows st j))) st)"
    by (simp add: get_lfx_module_def Let_def)
  show "fst (dunder_getattr h j name st)
        = Inl (ImportError (''Cannot import '' @ lfx_module_name (shadows st j)
                 @ '' for backwards compatibility with '' @ dunder_name (shadows st j)))"
    by (simp add: dunder_getattr_def g)
  show "shadows (snd (dunder_getattr h j name st)) = shadows st"
    by (simp add: dunder_getattr_def g log_call_def)
qed

theorem register_absent_target_creates_no_node_witness:
  "''x.z'' \<notin> dom (sys_modules example_state) \<and> probe_says_absent example_host ''p.missing'' \<and>
   register_compat example_host (Ordinary 0) (''x.z'', ''p.missing'') example_state
     = (None, log_call (FindSpec ''p.missing'') example_state) \<and>
   lfx_module (shadows example_state 1) = None \<and>
   import_module example_host (lfx_module_name (shadows example_state 1))
     = Inl (ImportError ''No module named p.broken'') \<and>
   fst (dunder_getattr example_host 1 ''VALUE'' example_state)
     = Inl (ImportError ''Cannot import p.broken for backwards compatibility with x.w'')"
proof -
  have a: "''x.z'' \<notin> dom (sys_modules example_state) \<and> probe_says_absent example_host ''p.missing''"
    using example_registry by (auto simp: probe_says_absent_def example_probe)
  have b: "lfx_module (shadows example_state 1) = None \<and>
     import_module example_host (lfx_module_name (shadows example_state 1))
       = Inl (ImportError ''No module named p.broken'')"
    using example_node_1 example_imports by simp
  from a b
    register_absent_target_creates_no_node[of "''x.z''" example_state example_host "''p.missing''"
      "Ordinary 0" example_host "''VALUE''" 1 "''No module named p.broken''"]
    example_node_1
  show ?thesis by simp
qed

text \<open>
  Registering \<open>x.z\<close> for the canonical name \<open>p.missing\<close>, which the probe does not find,
  raises nothing; reading \<open>VALUE\<close> through the registry entry \<open>x.z\<close> afterwards fails
  with the \<^verbatim>\<open>KeyError\<close> of the registry, and not with an \<^verbatim>\<open>ImportError\<close>.
\<close>

theorem access_after_noop_register_counterexample:
  "fst (register_compat example_host (Ordinary 0) (''x.z'', ''p.missing'') example_state) = None \<and>
   fst (registry_getattr example_host ''x.z'' ''VALUE''
          (snd (register_compat example_host (Ordinary 0) (''x.z'', ''p.missing'') example_state)))
     = Inl (KeyError ''x.z'') \<and>
   \<not> raises_import_error (fst (registry_getattr example_host ''x.z'' ''VALUE''
          (snd (register_compat example_host (Ordinary 0) (''x.z'', ''p.missing'') example_state))))"
proof -
  have r: "register_compat example_host (Ordinary 0) (''x.z'', ''p.missing'') example_state
             = (None, log_call (FindSpec ''p.missing'') example_state)"
    using example_registry by (auto simp: register_compat_def Let_def example_probe)
  have g: "registry_getattr example_host ''x.z'' ''VALUE'' (log_call (FindSpec ''p.missing'') example_state)
             = (Inl (KeyError ''x.z''), log_call (FindSpec ''p.missing'') example_state)"
    using example_registry by (simp add: registry_getattr_def)
  show ?thesis by (simp add: r g)
qed

text \<open>
  C5, as the code has it: \<^verbatim>\<open>__dir__\<close> returns the listing of the canonical namespace when
  the target resolves and the empty listing when the import primitive raises
  \<^verbatim>\<open>ImportError\<close>; an exception of any other class raised by the import primitive is not
  caught and reaches the caller.
\<close>

theorem dunder_dir_outcomes:
  "(resolves_to h st j c \<longrightarrow> fst (dunder_dir h j st) = Inr (dom (ordinary st c))) \<and>
   (lfx_module (shadows st j) = None \<and>
    import_module h (lfx_module_name (shadows st j)) = Inl e \<longrightarrow>
      fst (dunder_dir h j st) = (case e of ImportError m \<Rightarrow> Inr {} | _ \<Rightarrow> Inl e))"
proof (intro conjI impI)
  assume "resolves_to h st j c"
  then obtain st1 where "get_lfx_module h j st = (Inr c, st1)" "ordinary st1 = ordinary st"
    using get_lfx_module_resolves by blast
  then show "fst (dunder_dir h j st) = Inr (dom (ordinary st c))"
    by (simp add: dunder_dir_def)
next
  assume "lfx_module (shadows st j) = None \<and>
    import_module h (lfx_module_name (shadows st j)) = Inl e"
  then show "fst (dunder_dir h j st) = (case e of ImportError m \<Rightarrow> Inr {} | _ \<Rightarrow> Inl e)"
    by (cases e) (simp_all add: dunder_dir_def get_lfx_module_def Let_def)
qed

theorem dunder_dir_outcomes_witness:
  "resolves_to example_host example_state 0 1 \<and>
   fst (dunder_dir example_host 0 example_state) = Inr {''__name__'', ''VALUE''} \<and>
   lfx_module (shadows example_state 1) = None \<and>
   import_module example_host (lfx_module_name (shadows example_state 1))
     = Inl (ImportError ''No module named p.broken'') \<and>
   fst (dunder_dir example_host 1 example_state) = Inr {}"
proof -
  have b: "lfx_module (shadows example_state 1) = None \<and>
     import_module example_host (lfx_module_name (shadows example_state 1))
       = Inl (ImportError ''No module named p.broken'')"
    using example_node_1 example_imports by simp
  from example_resolves example_canonical b
    dunder_dir_outcomes[of example_host example_state 0 1 "ImportError ''No module named p.broken''"]
    dunder_dir_outcomes[of example_host example_state 1 1 "ImportError ''No module named p.broken''"]
  show ?thesis by simp
qed

text \<open>
  \<^verbatim>\<open>__dir__\<close> on the shadow \<open>x.v\<close>, whose canonical module raises a \<^verbatim>\<open>RuntimeError\<close> while
  it is imported, raises that error.
\<close>

theorem dunder_dir_raises_counterexample:
  "fst (dunder_dir example_host 2 example_state) = Inl (OtherException ''RuntimeError'')"
  using example_node_2 example_imports
  by (simp add: dunder_dir_def get_lfx_module_def Let_def)

lemma register_compat_keeps:
  "sys_modules st n = Some r \<Longrightarrow> sys_modules (snd (register_compat h cur e st)) n = Some r"
  by (auto simp: register_compat_def Let_def split: sum.splits bool.splits option.splits)

lemma register_aiexec_only_keeps:
  "sys_modules st n = Some r \<Longrightarrow> sys_modules (snd (register_aiexec_only h a st)) n = Some r"
  by (auto simp: register_aiexec_only_def Let_def split: option.splits prod.splits)

lemma for_each_keeps:
  assumes "\<And>x st. sys_modules st n = Some r \<Longrightarrow> sys_modules (snd (body x st)) n = Some r"
  shows "sys_modules st n = Some r \<Longrightarrow> sys_modules (snd (for_each body xs st)) n = Some r"
proof (induction xs arbitrary: st)
  case Nil
  then show ?case by simp
next
  case (Cons x xs)
  from assms[OF Cons.prems, of x] have k: "sys_modules (snd (body x st)) n = Some r" .
  show ?case
  proof (cases "body x st")
    case (Pair err st1)
    with k have k1: "sys_modules st1 n = Some r" by simp
    show ?thesis
    proof (cases err)
      case None
      with Pair Cons.IH[OF k1] show ?thesis by simp
    next
      case (Some e)
      with Pair k1 show ?thesis by simp
    qed
  qed
qed

text \<open>
  C6: a registration attempt for a name that is already in the registry, through either
  loop, does nothing at all: no error, and the state is the same, so no node or module
  is created and no host primitive is called (the file is not looked at again). The
  whole set-up never replaces an entry the registry already has.
\<close>

theorem registration_idempotent:
  assumes "sys_modules st aiexec_name = Some r"
  shows "register_compat h current_module (aiexec_name, lfx_name) st = (None, st) \<and>
         register_aiexec_only h aiexec_name st = (None, st) \<and>
         sys_modules (snd (setup_compatibility_modules h this_name st)) aiexec_name = Some r"
proof -
  have in_dom: "aiexec_name \<in> dom (sys_modules st)" using assms by blast
  have a: "register_compat h current_module (aiexec_name, lfx_name) st = (None, st)"
    using in_dom by (simp add: register_compat_def)
  have b: "register_aiexec_only h aiexec_name st = (None, st)"
    using in_dom by (simp add: register_aiexec_only_def)
  have c: "sys_modules (snd (setup_compatibility_modules h this_name st)) aiexec_name = Some r"
  proof (cases "sys_modules st this_name")
    case None
    with assms show ?thesis by (simp add: setup_compatibility_modules_def)
  next
    case (Some cur)
    have k1: "sys_modules (snd (for_each (register_compat h cur) module_mappings st)) aiexec_name
                = Some r"
    proof (rule for_each_keeps)
      fix x and st' :: pystate
      assume "sys_modules st' aiexec_name = Some r"
      then show "sys_modules (snd (register_compat h cur x st')) aiexec_name = Some r"
        by (rule register_compat_keeps)
    next
      show "sys_modules st aiexec_name = Some r" by (rule assms)
    qed
    show ?thesis
    proof (cases "for_each (register_compat h cur) module_mappings st")
      case (Pair err st1)
      with k1 have k2: "sys_modules st1 aiexec_name = Some r" by simp
      have k3: "sys_modules (snd (for_each (register_aiexec_only h) aiexec_only_modules st1))
                  aiexec_name = Some r"
      proof (rule for_each_keeps)
        fix x and st' :: pystate
        assume "sys_modules st' aiexec_name = Some r"
        then show "sys_modules (snd (register_aiexec_only h x st')) aiexec_name = Some r"
          by (rule register_aiexec_only_keeps)
      next
        show "sys_modules st1 aiexec_name = Some r" by (rule k2)
      qed
      from Some Pair k2 k3 show ?thesis
        by (cases err) (simp_all add: setup_compatibility_modules_def)
    qed
  qed
  from a b c show ?thesis by simp
qed

theorem registration_idempotent_witness:
  "sys_modules example_state ''x.y'' = Some (Shadow 0) \<and>
   register_compat failing_host (Ordinary 0) (''x.y'', ''p.other'') example_state
     = (None, example_state) \<and>
   register_aiexec_only example_host ''x.y'' example_state = (None, example_state) \<and>
   sys_modules (snd (setup_compatibility_modules example_host ''x'' example_state)) ''x.y''
     = Some (Shadow 0)"
proof -
  have a: "sys_modules example_state ''x.y'' = Some (Shadow 0)"
    using example_registry by simp
  from a registration_idempotent[OF a, of failing_host "Ordinary 0" "''p.other''"]
    registration_idempotent[OF a, of example_host "Ordinary 0" "''p.other''" "''x''"]
  show ?thesis by simp
qed

lemma example_files:
  "\<not> path_exists example_host ''base/data/kb_utils.py'' \<and>
   path_exists example_host ''base/knowledge_bases/__init__.py'' \<and>
   path_exists example_host ''components/knowledge_bases/__init__.py'' \<and>
   spec_from_file_location example_host ''aiexec.base.knowledge_bases''
     ''base/knowledge_bases/__init__.py'' \<and>
   spec_from_file_location example_host ''aiexec.components.knowledge_bases''
     ''components/knowledge_bases/__init__.py'' \<and>
   snd (exec_module example_host ''aiexec.base.knowledge_bases''
          ''base/knowledge_bases/__init__.py'') = Some (ImportError ''No module named chromadb'') \<and>
   snd (exec_module example_host ''aiexec.components.knowledge_bases''
          ''components/knowledge_bases/__init__.py'') = Some (OtherException ''SyntaxError'')"
  by (simp add: example_host_def)

lemma example_sources:
  "override_source ''aiexec.base.data.kb_utils''
     = Some (''base/data/kb_utils.py'', ''aiexec.base.data'', ''kb_utils'') \<and>
   override_source ''aiexec.base.knowledge_bases''
     = Some (''base/knowledge_bases/__init__.py'', ''aiexec.base'', ''knowledge_bases'') \<and>
   override_source ''aiexec.components.knowledge_bases''
     = Some (''components/knowledge_bases/__init__.py'', ''aiexec.components'',
             ''knowledge_bases'')"
  by (simp add: override_source_def)

text \<open>
  C7, as the code has it: for one of the three physical modules that is not yet
  registered, when the file does not exist or no spec with a loader is obtained, the
  override is skipped: no error, and the registry and the ordinary modules are as
  before. When executing the file raises, an \<^verbatim>\<open>ImportError\<close> or \<^verbatim>\<open>AttributeError\<close> is
  swallowed and an exception of any other class reaches the caller.
\<close>

theorem override_skipped_or_raises:
  assumes "aiexec_name \<notin> dom (sys_modules st)"
    and "override_source aiexec_name = Some (file, parent_name, attr)"
  shows "(\<not> path_exists h file \<or> \<not> spec_from_file_location h aiexec_name file \<longrightarrow>
            fst (register_aiexec_only h aiexec_name st) = None \<and>
            sys_modules (snd (register_aiexec_only h aiexec_name st)) = sys_modules st \<and>
            ordinary (snd (register_aiexec_only h aiexec_name st)) = ordinary st) \<and>
         (path_exists h file \<and> spec_from_file_location h aiexec_name file \<and>
          snd (exec_module h aiexec_name file) = Some e \<longrightarrow>
            fst (register_aiexec_only h aiexec_name st)
              = (if import_or_attribute_error e then None else Some e))"
  using assms
  by (auto simp: register_aiexec_only_def Let_def log_call_def)

theorem override_skipped_or_raises_witness:
  "''aiexec.base.data.kb_utils'' \<notin> dom (sys_modules example_state) \<and>
   override_source ''aiexec.base.data.kb_utils''
     = Some (''base/data/kb_utils.py'', ''aiexec.base.data'', ''kb_utils'') \<and>
   \<not> path_exists example_host ''base/data/kb_utils.py'' \<and>
   fst (register_aiexec_only example_host ''aiexec.base.data.kb_utils'' example_state) = None \<and>
   sys_modules (snd (register_aiexec_only example_host ''aiexec.base.data.kb_utils'' example_state))
     = sys_modules example_state \<and>
   ''aiexec.base.knowledge_bases'' \<notin> dom (sys_modules example_state) \<and>
   snd (exec_module example_host ''aiexec.base.knowledge_bases''
          ''base/knowledge_bases/__init__.py'') = Some (ImportError ''No module named chromadb'') \<and>
   fst (register_aiexec_only example_host ''aiexec.base.knowledge_bases'' example_state) = None"
proof -
  have a: "''aiexec.base.data.kb_utils'' \<notin> dom (sys_modules example_state)"
    using example_registry by (simp add: dom_def)
  have b: "''aiexec.base.knowledge_bases'' \<notin> dom (sys_modules example_state)"
    using example_registry by (simp add: dom_def)
  have sa: "override_source ''aiexec.base.data.kb_utils''
     = Some (''base/data/kb_utils.py'', ''aiexec.base.data'', ''kb_utils'')"
    using example_sources by simp
  have sb: "override_source ''aiexec.base.knowledge_bases''
     = Some (''base/knowledge_bases/__init__.py'', ''aiexec.base'', ''knowledge_bases'')"
    using example_sources by simp
  from a b sa example_files
    override_skipped_or_raises[OF a sa, of example_host "ImportError []"]
    override_skipped_or_raises[OF b sb, of example_host "ImportError ''No module named chromadb''"]
  show ?thesis by simp
qed

text \<open>
  The file of \<open>aiexec.components.knowledge_bases\<close> exists and has a syntax error: the
  error leaves the loop body.
\<close>

theorem override_error_propagates_counterexample:
  "path_exists example_host ''components/knowledge_bases/__init__.py'' \<and>
   snd (exec_module example_host ''aiexec.components.knowledge_bases''
          ''components/knowledge_bases/__init__.py'') = Some (OtherException ''SyntaxError'') \<and>
   fst (register_aiexec_only example_host ''aiexec.components.knowledge_bases'' example_state)
     = Some (OtherException ''SyntaxError'')"
  using example_registry example_files
  by (simp add: register_aiexec_only_def Let_def example_sources dom_def)

text \<open>
  The registry after a failed execution: the module is stored in the registry before its
  file is executed and is not removed when the execution fails, so the name stays
  registered, bound to the partly executed module, and is skipped from then on.
\<close>

lemma failed_override_stays_registered:
  assumes "aiexec_name \<notin> dom (sys_modules st)"
    and "override_source aiexec_name = Some (file, parent_name, attr)"
    and "path_exists h file" and "spec_from_file_location h aiexec_name file"
    and "snd (exec_module h aiexec_name file) = Some e"
  shows "sys_modules (snd (register_aiexec_only h aiexec_name st)) aiexec_name
           = Some (Ordinary (next_ordinary st))"
  using assms
  by (auto simp: register_aiexec_only_def Let_def log_call_def)

subsection \<open>Hierarchy linking\<close>

lemma module_namespace_setattr:
  "module_namespace (setattr r name v st) r' =
     (if r' = r then (module_namespace st r)(name \<mapsto> v) else module_namespace st r')"
  by (auto simp: module_namespace_def setattr_def split: mod_ref.splits)

lemma setattr_keeps_fields:
  "dunder_name (shadows (setattr r name v st) k) = dunder_name (shadows st k) \<and>
   lfx_module_name (shadows (setattr r name v st) k) = lfx_module_name (shadows st k) \<and>
   lfx_module (shadows (setattr r name v st) k) = lfx_module (shadows st k)"
  by (simp add: setattr_def split: mod_ref.splits)

lemma link_hierarchy_keeps_fields:
  "dunder_name (shadows (link_hierarchy n m st) k) = dunder_name (shadows st k) \<and>
   lfx_module_name (shadows (link_hierarchy n m st) k) = lfx_module_name (shadows st k) \<and>
   lfx_module (shadows (link_hierarchy n m st) k) = lfx_module (shadows st k)"
  by (simp add: link_hierarchy_def Let_def setattr_keeps_fields split: option.splits)

lemma module_namespace_link_hierarchy:
  "module_namespace (link_hierarchy n m st) r =
     (if 1 < length (split_dot n) \<and> sys_modules st (join_dot (butlast (split_dot n))) = Some r
      then (module_namespace st r)(last (split_dot n) \<mapsto> VModule m)
      else module_namespace st r)"
  by (auto simp: link_hierarchy_def Let_def module_namespace_setattr split: option.splits)

text \<open>
  C8: a registration whose probe succeeds raises nothing and stores the new node in the
  registry under the shadow name, whatever the state of its parent. If the name has a
  parent segment and the parent is in the registry at that moment, the parent gets an
  attribute, named by the last segment, that is the node. Otherwise no module other
  than the node changes, except that the five top-level names are also set on the
  package running the set-up: the node is in the registry and no registered parent
  leads to it.
\<close>

theorem registered_node_linked_iff_parent_present:
  assumes "aiexec_name \<notin> dom (sys_modules st)" and "find_spec h lfx_name = Inr True"
  shows "let node = Shadow (next_shadow st);
             registry = (sys_modules st)(aiexec_name \<mapsto> node);
             parts = split_dot aiexec_name;
             parent_name = join_dot (butlast parts);
             st' = snd (register_compat h current_module (aiexec_name, lfx_name) st)
         in fst (register_compat h current_module (aiexec_name, lfx_name) st) = None \<and>
            sys_modules st' = registry \<and>
            dunder_name (shadows st' (next_shadow st)) = aiexec_name \<and>
            lfx_module_name (shadows st' (next_shadow st)) = lfx_name \<and>
            lfx_module (shadows st' (next_shadow st)) = None \<and>
            (\<forall>parent. 1 < length parts \<and> registry parent_name = Some parent \<longrightarrow>
               module_namespace st' parent (last parts) = Some (VModule node)) \<and>
            (length parts \<le> 1 \<or> registry parent_name = None \<longrightarrow>
               (\<forall>r. r \<noteq> node \<longrightarrow>
                  module_namespace st' r =
                    (case top_level_attr aiexec_name of
                       Some a \<Rightarrow> if r = current_module
                                 then (module_namespace st r)(a \<mapsto> VModule node)
                                 else module_namespace st r
                     | None \<Rightarrow> module_namespace st r)))"
proof -
  define j where "j = next_shadow st"
  define st2 where
    "st2 = (log_call (FindSpec lfx_name) st)
             \<lparr>shadows := (shadows (log_call (FindSpec lfx_name) st))
                           (j := new_compat_module aiexec_name lfx_name),
              next_shadow := Suc j,
              sys_modules := (sys_modules (log_call (FindSpec lfx_name) st))
                               (aiexec_name \<mapsto> Shadow j)\<rparr>"
  define st3 where "st3 = link_hierarchy aiexec_name (Shadow j) st2"
  define st4 where
    "st4 = (case top_level_attr aiexec_name of
              None \<Rightarrow> st3
            | Some a \<Rightarrow> setattr current_module a (VModule (Shadow j)) st3)"
  have nj: "next_shadow (log_call (FindSpec lfx_name) st) = j"
    by (simp add: log_call_def j_def)
  have res: "register_compat h current_module (aiexec_name, lfx_name) st = (None, st4)"
    using assms
    by (simp add: register_compat_def Let_def nj st2_def st3_def st4_def split: option.splits)
  have reg2: "sys_modules st2 = (sys_modules st)(aiexec_name \<mapsto> Shadow j)"
    by (simp add: st2_def)
  have reg4: "sys_modules st4 = (sys_modules st)(aiexec_name \<mapsto> Shadow j)"
    by (simp add: st4_def st3_def reg2 split: option.splits)
  have node2: "shadows st2 j = new_compat_module aiexec_name lfx_name"
    by (simp add: st2_def)
  have fields3: "dunder_name (shadows st3 j) = aiexec_name \<and>
      lfx_module_name (shadows st3 j) = lfx_name \<and> lfx_module (shadows st3 j) = None"
    by (simp add: st3_def link_hierarchy_keeps_fields node2 new_compat_module_def)
  have fields4: "dunder_name (shadows st4 j) = aiexec_name \<and>
      lfx_module_name (shadows st4 j) = lfx_name \<and> lfx_module (shadows st4 j) = None"
    using fields3 by (simp add: st4_def setattr_keeps_fields split: option.splits)
  have ns2: "\<And>r. r \<noteq> Shadow j \<Longrightarrow> module_namespace st2 r = module_namespace st r"
    by (auto simp: module_namespace_def st2_def log_call_def split: mod_ref.splits)
  have linked: "\<And>parent. 1 < length (split_dot aiexec_name) \<Longrightarrow>
      sys_modules st2 (join_dot (butlast (split_dot aiexec_name))) = Some parent \<Longrightarrow>
      module_namespace st4 parent (last (split_dot aiexec_name)) = Some (VModule (Shadow j))"
    by (simp add: st4_def st3_def module_namespace_setattr module_namespace_link_hierarchy
          split: option.splits)
  have unlinked: "\<And>r. length (split_dot aiexec_name) \<le> 1 \<or>
        sys_modules st2 (join_dot (butlast (split_dot aiexec_name))) = None \<Longrightarrow>
      r \<noteq> Shadow j \<Longrightarrow>
      module_namespace st4 r =
        (case top_level_attr aiexec_name of
           Some a \<Rightarrow> if r = current_module
                     then (module_namespace st r)(a \<mapsto> VModule (Shadow j))
                     else module_namespace st r
         | None \<Rightarrow> module_namespace st r)"
    using ns2
    by (auto simp: st4_def st3_def module_namespace_setattr module_namespace_link_hierarchy
          split: option.splits)
  show ?thesis
    unfolding Let_def res j_def[symmetric] reg2[symmetric]
    using reg4 reg2 fields4 linked unlinked by simp
qed

lemma example_names:
  "split_dot ''x.u'' = [''x'', ''u''] \<and> split_dot ''orphan.u'' = [''orphan'', ''u''] \<and>
   top_level_attr ''orphan.u'' = None \<and> next_shadow example_state = 3"
  by (simp add: split_dot_def top_level_attr_def example_state_def)

theorem registered_node_linked_iff_parent_present_witness:
  "''x.u'' \<notin> dom (sys_modules example_state) \<and>
   ''orphan.u'' \<notin> dom (sys_modules example_state) \<and>
   find_spec example_host ''p.q'' = Inr True \<and>
   sys_modules example_state ''x'' = Some (Ordinary 0) \<and>
   sys_modules
     (snd (register_compat example_host (Ordinary 0) (''x.u'', ''p.q'') example_state)) ''x.u''
     = Some (Shadow 3) \<and>
   module_namespace
     (snd (register_compat example_host (Ordinary 0) (''x.u'', ''p.q'') example_state))
     (Ordinary 0) ''u'' = Some (VModule (Shadow 3)) \<and>
   sys_modules example_state ''orphan'' = None \<and>
   sys_modules
     (snd (register_compat example_host (Ordinary 0) (''orphan.u'', ''p.q'') example_state))
     ''orphan.u'' = Some (Shadow 3) \<and>
   module_namespace
     (snd (register_compat example_host (Ordinary 0) (''orphan.u'', ''p.q'') example_state))
     (Ordinary 0) = module_namespace example_state (Ordinary 0)"
proof -
  have a: "''x.u'' \<notin> dom (sys_modules example_state)"
    using example_registry by (simp add: dom_def)
  have b: "''orphan.u'' \<notin> dom (sys_modules example_state)"
    using example_registry by (simp add: dom_def)
  have p: "find_spec example_host ''p.q'' = Inr True"
    using example_probe by simp
  note linked = registered_node_linked_iff_parent_present[OF a p, of "Ordinary 0", unfolded Let_def]
  note orphan = registered_node_linked_iff_parent_present[OF b p, of "Ordinary 0", unfolded Let_def]
  from a b p example_registry example_names linked orphan
  show ?thesis by simp
qed

lemma parent_of_dotted_name:
  "join_dot (butlast (split_dot ''aiexec.base.io'')) = ''aiexec.base'' \<and>
   last (split_dot ''aiexec.base.io'') = ''io'' \<and> split_dot ''aiexec'' = [''aiexec'']"
  by (simp add: split_dot_def)

end
